theory Spec2Isabelle
  imports Main "HOL-Library.Word"
begin

unbundle bit_operations_syntax

section \<open>JavaScript values\<close>

text \<open>
  The fields of an \<open>HNAP1Client\<close> and the trees that xml2js returns hold JavaScript
  values: \<open>undefined\<close>, \<open>null\<close>, strings, arrays and plain objects. An object is an
  association list in insertion order, with distinct keys. Strings are lists of
  8-bit characters, which covers what the router exchanges (hexadecimal digests, tag names,
  ASCII markup).
\<close>

datatype jsval =
    JUndefined
  | JNull
  | JStr string
  | JArr "jsval list"
  | JObj "(string \<times> jsval) list"

text \<open>What a \<open>throw\<close> carries: \<open>new Error(message)\<close>, or the engine's \<open>TypeError\<close>.\<close>

datatype error = Error string | TypeError string

fun message :: "error \<Rightarrow> string" where
  "message (Error m) = m"
| "message (TypeError m) = m"

text \<open>\<open>!v\<close> is \<open>\<not> truthy v\<close>: \<open>undefined\<close>, \<open>null\<close> and the empty string are falsy.\<close>

fun truthy :: "jsval \<Rightarrow> bool" where
  "truthy JUndefined = False"
| "truthy JNull = False"
| "truthy (JStr s) = (s \<noteq> [])"
| "truthy (JArr xs) = True"
| "truthy (JObj kvs) = True"

text \<open>
  String coercion, as \<open>+\<close> with a string operand and a template literal apply it.
  \<open>Array.prototype.join\<close> renders \<open>undefined\<close> and \<open>null\<close> elements as the empty
  string.
\<close>

fun join_comma :: "string list \<Rightarrow> string" where
  "join_comma [] = []"
| "join_comma [s] = s"
| "join_comma (s # t # ss) = s @ '','' @ join_comma (t # ss)"

fun js_toString :: "jsval \<Rightarrow> string" where
  "js_toString JUndefined = ''undefined''"
| "js_toString JNull = ''null''"
| "js_toString (JStr s) = s"
| "js_toString (JArr xs) =
     join_comma (map (\<lambda>x. if x = JUndefined \<or> x = JNull then [] else js_toString x) xs)"
| "js_toString (JObj kvs) = ''[object Object]''"

text \<open>\<open>Number.prototype.toString\<close> on an integer below \<open>10^21\<close>: plain decimal digits.\<close>

function dec_digits :: "int \<Rightarrow> string" where
  "dec_digits n =
     (if n < 10 then [''0123456789'' ! nat n]
      else dec_digits (n div 10) @ [''0123456789'' ! nat (n mod 10)])"
  by pat_completeness auto
termination
  by (relation "measure nat") auto

definition int_toString :: "int \<Rightarrow> string" where
  "int_toString i = (if i < 0 then ''-'' @ dec_digits (- i) else dec_digits i)"

definition nat_toString :: "nat \<Rightarrow> string" where
  "nat_toString n = dec_digits (int n)"

text \<open>
  Property reads. \<open>v[k]\<close> throws a \<open>TypeError\<close> on \<open>undefined\<close> and \<open>null\<close>; on an
  object it is the own property or \<open>undefined\<close>; on a string or an array it is the
  element at a canonical index. The client reads only the names \<open>Envelope\<close>, \<open>Body\<close>,
  \<open>Challenge\<close>, \<open>Cookie\<close>, \<open>PublicKey\<close>, \<open>LoginResult\<close> and the first entry of
  \<open>Object.keys\<close>, so inherited properties (\<open>length\<close>, \<open>constructor\<close>) play no part.
\<close>

definition index_of_key :: "string \<Rightarrow> nat \<Rightarrow> nat option" where
  "index_of_key k n = find (\<lambda>i. nat_toString i = k) [0..<n]"

fun js_get :: "jsval \<Rightarrow> string \<Rightarrow> error + jsval" where
  "js_get JUndefined k =
     Inl (TypeError (''Cannot read properties of undefined (reading '' @ [CHR 0x27] @ k @ [CHR 0x27] @ '')''))"
| "js_get JNull k =
     Inl (TypeError (''Cannot read properties of null (reading '' @ [CHR 0x27] @ k @ [CHR 0x27] @ '')''))"
| "js_get (JStr s) k =
     Inr (case index_of_key k (length s) of None \<Rightarrow> JUndefined | Some i \<Rightarrow> JStr [s ! i])"
| "js_get (JArr xs) k =
     Inr (case index_of_key k (length xs) of None \<Rightarrow> JUndefined | Some i \<Rightarrow> xs ! i)"
| "js_get (JObj kvs) k =
     Inr (case map_of kvs k of None \<Rightarrow> JUndefined | Some v \<Rightarrow> v)"

text \<open>
  \<open>Object.keys\<close>: own enumerable property names. An object's association list is in
  insertion order; the enumeration puts the names that are array indices (canonical
  decimal strings up to \<open>2^32 - 2\<close>) first, in ascending numeric order, and the other
  names after them in insertion order.
\<close>

definition digit_value :: "char \<Rightarrow> int" where
  "digit_value ch = int (of_char ch) - 48"

definition index_value :: "string \<Rightarrow> int option" where
  "index_value k =
     (if k \<noteq> [] \<and> list_all (\<lambda>ch. ch \<in> set ''0123456789'') k \<and> (k = ''0'' \<or> hd k \<noteq> CHR ''0'')
           \<and> length k \<le> 10 \<and> foldl (\<lambda>n ch. 10 * n + digit_value ch) 0 k \<le> 4294967294
      then Some (foldl (\<lambda>n ch. 10 * n + digit_value ch) 0 k)
      else None)"

definition index_rank :: "string \<Rightarrow> int" where
  "index_rank k = (case index_value k of None \<Rightarrow> 0 | Some n \<Rightarrow> n)"

definition own_keys :: "(string \<times> jsval) list \<Rightarrow> string list" where
  "own_keys kvs =
     sort_key index_rank (filter (\<lambda>k. index_value k \<noteq> None) (map fst kvs))
     @ filter (\<lambda>k. index_value k = None) (map fst kvs)"

fun js_keys :: "jsval \<Rightarrow> error + string list" where
  "js_keys JUndefined = Inl (TypeError ''Cannot convert undefined or null to object'')"
| "js_keys JNull = Inl (TypeError ''Cannot convert undefined or null to object'')"
| "js_keys (JStr s) = Inr (map nat_toString [0..<length s])"
| "js_keys (JArr xs) = Inr (map nat_toString [0..<length xs])"
| "js_keys (JObj kvs) = Inr (own_keys kvs)"

text \<open>
  \<open>String.prototype.toUpperCase\<close>. The client applies it to hexadecimal digests only;
  the ASCII letters are mapped and every other character is kept.
\<close>

definition upper_char :: "char \<Rightarrow> char" where
  "upper_char ch =
     (case map_of (zip ''abcdefghijklmnopqrstuvwxyz'' ''ABCDEFGHIJKLMNOPQRSTUVWXYZ'') ch of
        None \<Rightarrow> ch | Some u \<Rightarrow> u)"

definition toUpperCase :: "string \<Rightarrow> string" where
  "toUpperCase s = map upper_char s"

section \<open>The keyed hash of md5.js\<close>

text \<open>
  Modelled from the spec: \<open>md5.js\<close>, which exports \<open>hex_hmac_md5\<close>, is not among the
  sources. The spec gives its contract as \<open>hmac(key, message)\<close>, a 32-character lowercase
  hexadecimal string, computed by the standard keyed-hash construction (the key padded to
  the block size and XORed with the inner and outer pad constants, the inner digest over
  key XOR ipad followed by the message, the outer digest over key XOR opad followed by the
  inner digest's bytes) over a digest with 16-byte outputs, with the reference vector of
  key \<open>Jefe\<close>. That is HMAC-MD5 (RFC 2104 over RFC 1321), written out below. The first
  argument is the key, the second the message.
\<close>

type_synonym u8 = "8 word"
type_synonym u32 = "32 word"
type_synonym md5_state = "u32 \<times> u32 \<times> u32 \<times> u32"

definition md5_K :: "u32 list" where
  "md5_K = [
    0xd76aa478, 0xe8c7b756, 0x242070db, 0xc1bdceee, 0xf57c0faf, 0x4787c62a, 0xa8304613, 0xfd469501,
    0x698098d8, 0x8b44f7af, 0xffff5bb1, 0x895cd7be, 0x6b901122, 0xfd987193, 0xa679438e, 0x49b40821,
    0xf61e2562, 0xc040b340, 0x265e5a51, 0xe9b6c7aa, 0xd62f105d, 0x02441453, 0xd8a1e681, 0xe7d3fbc8,
    0x21e1cde6, 0xc33707d6, 0xf4d50d87, 0x455a14ed, 0xa9e3e905, 0xfcefa3f8, 0x676f02d9, 0x8d2a4c8a,
    0xfffa3942, 0x8771f681, 0x6d9d6122, 0xfde5380c, 0xa4beea44, 0x4bdecfa9, 0xf6bb4b60, 0xbebfbc70,
    0x289b7ec6, 0xeaa127fa, 0xd4ef3085, 0x04881d05, 0xd9d4d039, 0xe6db99e5, 0x1fa27cf8, 0xc4ac5665,
    0xf4292244, 0x432aff97, 0xab9423a7, 0xfc93a039, 0x655b59c3, 0x8f0ccc92, 0xffeff47d, 0x85845dd1,
    0x6fa87e4f, 0xfe2ce6e0, 0xa3014314, 0x4e0811a1, 0xf7537e82, 0xbd3af235, 0x2ad7d2bb, 0xeb86d391]"

definition md5_S :: "nat list" where
  "md5_S = [7, 12, 17, 22, 7, 12, 17, 22, 7, 12, 17, 22, 7, 12, 17, 22,
            5, 9, 14, 20, 5, 9, 14, 20, 5, 9, 14, 20, 5, 9, 14, 20,
            4, 11, 16, 23, 4, 11, 16, 23, 4, 11, 16, 23, 4, 11, 16, 23,
            6, 10, 15, 21, 6, 10, 15, 21, 6, 10, 15, 21, 6, 10, 15, 21]"

definition rotl32 :: "u32 \<Rightarrow> nat \<Rightarrow> u32" where
  "rotl32 x n = (push_bit n x) OR (drop_bit (32 - n) x)"

definition md5_step :: "u32 list \<Rightarrow> md5_state \<Rightarrow> nat \<Rightarrow> md5_state" where
  "md5_step m st i = (case st of (a, b, c, d) \<Rightarrow>
     (let f = (if i < 16 then (b AND c) OR (NOT b AND d)
               else if i < 32 then (d AND b) OR (NOT d AND c)
               else if i < 48 then b XOR c XOR d
               else c XOR (b OR NOT d));
          g = (if i < 16 then i
               else if i < 32 then (5 * i + 1) mod 16
               else if i < 48 then (3 * i + 5) mod 16
               else (7 * i) mod 16)
      in (d, b + rotl32 (f + a + md5_K ! i + m ! g) (md5_S ! i), b, c)))"

definition md5_block :: "md5_state \<Rightarrow> u32 list \<Rightarrow> md5_state" where
  "md5_block st m = (case st of (a0, b0, c0, d0) \<Rightarrow>
     (case foldl (md5_step m) st [0..<64] of (a, b, c, d) \<Rightarrow>
        (a0 + a, b0 + b, c0 + c, d0 + d)))"

text \<open>Little-endian bytes of a number, and the little-endian word of four bytes.\<close>

fun le_bytes :: "nat \<Rightarrow> nat \<Rightarrow> u8 list" where
  "le_bytes 0 v = []"
| "le_bytes (Suc n) v = of_nat (v mod 256) # le_bytes n (v div 256)"

definition le_word :: "u8 list \<Rightarrow> u32" where
  "le_word bs = foldr (\<lambda>b w. ucast b + push_bit 8 w) bs 0"

definition md5_pad :: "u8 list \<Rightarrow> u8 list" where
  "md5_pad bs =
     bs @ [0x80] @ replicate ((119 - length bs mod 64) mod 64) 0 @ le_bytes 8 (8 * length bs)"

definition block_words :: "u8 list \<Rightarrow> nat \<Rightarrow> u32 list" where
  "block_words p i = map (\<lambda>j. le_word (take 4 (drop (64 * i + 4 * j) p))) [0..<16]"

definition word_bytes :: "u32 \<Rightarrow> u8 list" where
  "word_bytes w = map (\<lambda>j. ucast (drop_bit (8 * j) w)) [0..<4]"

definition md5_absorb :: "u8 list \<Rightarrow> md5_state \<Rightarrow> nat \<Rightarrow> md5_state" where
  "md5_absorb p st i = md5_block st (block_words p i)"

definition md5_digest :: "md5_state \<Rightarrow> u8 list" where
  "md5_digest st = (case st of (a, b, c, d) \<Rightarrow>
     word_bytes a @ word_bytes b @ word_bytes c @ word_bytes d)"

definition md5_padded :: "u8 list \<Rightarrow> u8 list" where
  "md5_padded p =
     md5_digest (foldl (md5_absorb p)
       (0x67452301, 0xefcdab89, 0x98badcfe, 0x10325476) [0..<length p div 64])"

definition md5 :: "u8 list \<Rightarrow> u8 list" where
  "md5 bs = md5_padded (md5_pad bs)"

definition hmac_md5 :: "u8 list \<Rightarrow> u8 list \<Rightarrow> u8 list" where
  "hmac_md5 key msg =
     (let k0 = (if length key > 64 then md5 key else key);
          k = k0 @ replicate (64 - length k0) 0;
          ipad = map (\<lambda>b. b XOR 0x36) k;
          opad = map (\<lambda>b. b XOR 0x5c) k
      in md5 (opad @ md5 (ipad @ msg)))"

definition hex_byte :: "u8 \<Rightarrow> string" where
  "hex_byte b = [''0123456789abcdef'' ! (unat b div 16), ''0123456789abcdef'' ! (unat b mod 16)]"

definition string_bytes :: "string \<Rightarrow> u8 list" where
  "string_bytes s = map of_char s"

definition hmac :: "string \<Rightarrow> string \<Rightarrow> string" where
  "hmac key msg = concat (map hex_byte (hmac_md5 (string_bytes key) (string_bytes msg)))"

section \<open>The client: state and credential derivation\<close>

text \<open>
  The fields of \<open>HNAP1Client\<close>. The constructor's arguments are strings; the four
  handshake fields start as \<open>null\<close> and later hold whatever the response gave.
\<close>

record client =
  routerIP :: string
  username :: string
  password :: string
  baseUrl :: string
  privateKey :: jsval
  cookie :: jsval
  publicKey :: jsval
  challenge :: jsval
  compareTimeStamp :: int

definition new_client :: "string \<Rightarrow> string \<Rightarrow> string \<Rightarrow> client" where
  "new_client ip user pw =
     \<lparr> routerIP = ip, username = user, password = pw,
       baseUrl = ''http://'' @ ip @ ''/HNAP1/'',
       privateKey = JNull, cookie = JNull, publicKey = JNull, challenge = JNull,
       compareTimeStamp = 0 \<rparr>"

text \<open>
  \<open>hex_hmac_md5(key, data)\<close> as the client calls it, on JavaScript values. On two strings
  it is the keyed hash above. What \<open>md5.js\<close> does with an argument that is not a string
  (\<open>null\<close> before the handshake) is not in the sources and the spec does not say: it is
  the parameter \<open>other\<close>, which may throw or return a string.
\<close>

type_synonym md5_other = "jsval \<Rightarrow> jsval \<Rightarrow> error + string"

fun hex_hmac_md5 :: "md5_other \<Rightarrow> jsval \<Rightarrow> jsval \<Rightarrow> error + string" where
  "hex_hmac_md5 other (JStr key) (JStr data) = Inr (hmac key data)"
| "hex_hmac_md5 other k d = other k d"

definition generatePrivateKey :: "md5_other \<Rightarrow> client \<Rightarrow> error + string" where
  "generatePrivateKey other c =
     map_sum id toUpperCase
       (hex_hmac_md5 other (JStr (js_toString (publicKey c) @ password c)) (challenge c))"

definition generateLoginPassword :: "md5_other \<Rightarrow> client \<Rightarrow> error + string" where
  "generateLoginPassword other c =
     map_sum id toUpperCase (hex_hmac_md5 other (privateKey c) (challenge c))"

text \<open>
  The two derivations as the spec words them, \<open>hmac(key = challenge, message = publicKey +
  password)\<close> and \<open>hmac(key = challenge, message = privateKey)\<close>, for comparison with the
  code.
\<close>

definition derivePrivateKey :: "string \<Rightarrow> string \<Rightarrow> string \<Rightarrow> string" where
  "derivePrivateKey pub pw chal = toUpperCase (hmac chal (pub @ pw))"

definition deriveLoginProof :: "string \<Rightarrow> string \<Rightarrow> string" where
  "deriveLoginProof priv chal = toUpperCase (hmac chal priv)"

section \<open>The client: timestamps and the authentication header\<close>

text \<open>
  \<open>Date.now()\<close> is the argument \<open>now\<close>, an integer number of milliseconds.
  \<open>%\<close> truncates: the remainder has the sign of the dividend. \<open>Math.floor\<close> of an
  integer is that integer, and all values stay far below \<open>2^53\<close>, where doubles are
  exact.
\<close>

definition js_rem :: "int \<Rightarrow> int \<Rightarrow> int" where
  "js_rem a b = (if a < 0 then - ((- a) mod \<bar>b\<bar>) else a mod \<bar>b\<bar>)"

definition getUniqueTimestamp :: "int \<Rightarrow> client \<Rightarrow> string \<times> client" where
  "getUniqueTimestamp now c =
     (let timestamp0 = js_rem now 2000000000000;
          timestamp = (if compareTimeStamp c = timestamp0 then timestamp0 + 1 else timestamp0)
      in (int_toString timestamp, c\<lparr>compareTimeStamp := timestamp\<rparr>))"

text \<open>Successive calls on one client, one clock reading for each call.\<close>

fun timestamps :: "int list \<Rightarrow> client \<Rightarrow> string list \<times> client" where
  "timestamps [] c = ([], c)"
| "timestamps (now # nows) c =
     (case getUniqueTimestamp now c of (t, c1) \<Rightarrow>
        (case timestamps nows c1 of (ts, c2) \<Rightarrow> (t # ts, c2)))"

definition generateHnapAuth ::
  "md5_other \<Rightarrow> int \<Rightarrow> string \<Rightarrow> client \<Rightarrow> (error + string) \<times> client" where
  "generateHnapAuth other now soapAction c =
     (case getUniqueTimestamp now c of (timestamp, c1) \<Rightarrow>
        (case hex_hmac_md5 other (privateKey c1) (JStr (timestamp @ soapAction)) of
           Inl e \<Rightarrow> (Inl e, c1)
         | Inr auth \<Rightarrow> (Inr (toUpperCase auth @ '' '' @ timestamp), c1)))"

section \<open>The client: requests\<close>

text \<open>
  The headers object is an association list in insertion order. \<open>hnap_headers\<close> is the
  first half of \<open>makeHNAPRequest\<close>, up to the call of the transport.
\<close>

type_synonym headers = "(string \<times> string) list"

definition soap_action :: "string \<Rightarrow> string" where
  "soap_action action = ''\"http://purenetworks.com/HNAP1/'' @ action @ ''\"''"

definition hnap_headers ::
  "md5_other \<Rightarrow> int \<Rightarrow> string \<Rightarrow> client \<Rightarrow> (error + headers) \<times> client" where
  "hnap_headers other now action c =
     (let soapAction = soap_action action;
          headers = [(''Content-Type'', ''text/xml; charset=utf-8''), (''SOAPAction'', soapAction)];
          cookie_header = (if truthy (cookie c) then [(''Cookie'', ''uid='' @ js_toString (cookie c))] else [])
      in if truthy (privateKey c)
         then (case generateHnapAuth other now soapAction c of
                 (Inl e, c1) \<Rightarrow> (Inl e, c1)
               | (Inr auth, c1) \<Rightarrow> (Inr (headers @ [(''HNAP_AUTH'', auth)] @ cookie_header), c1))
         else (Inr (headers @ cookie_header), c))"

text \<open>
  \<open>axios.post(url, body, {headers})\<close> is the parameter \<open>post\<close>: the response's data, or
  the error it throws.
\<close>

type_synonym transport = "string \<Rightarrow> string \<Rightarrow> headers \<Rightarrow> error + string"

definition makeHNAPRequest ::
  "md5_other \<Rightarrow> transport \<Rightarrow> int \<Rightarrow> string \<Rightarrow> string \<Rightarrow> client \<Rightarrow> (error + string) \<times> client" where
  "makeHNAPRequest other post now action body c =
     (case hnap_headers other now action c of
        (Inl e, c1) \<Rightarrow> (Inl e, c1)
      | (Inr headers, c1) \<Rightarrow>
          (case post (baseUrl c1) body headers of
             Inl err \<Rightarrow> (Inl (Error (''HNAP request failed: '' @ message err)), c1)
           | Inr data \<Rightarrow> (Inr data, c1)))"

text \<open>
  \<open>createSOAP\<close>. The parameters are the list that \<open>Object.entries(params)\<close> yields,
  names and string values.
\<close>

definition soap_open :: "string \<Rightarrow> string" where
  "soap_open action =
     ''<?xml version=\"1.0\" encoding=\"utf-8\"?>\<newline>'' @
     ''      <soap:Envelope xmlns:xsi=\"http://www.w3.org/2001/XMLSchema-instance\" \<newline>'' @
     ''                     xmlns:xsd=\"http://www.w3.org/2001/XMLSchema\" \<newline>'' @
     ''                     xmlns:soap=\"http://schemas.xmlsoap.org/soap/envelope/\">\<newline>'' @
     ''        <soap:Body>\<newline>'' @
     ''          <'' @ action @ '' xmlns=\"http://purenetworks.com/HNAP1/\">''"

definition soap_close :: "string \<Rightarrow> string" where
  "soap_close action =
     ''</'' @ action @ ''>\<newline>'' @
     ''        </soap:Body>\<newline>'' @
     ''      </soap:Envelope>''"

definition soap_param :: "string \<times> string \<Rightarrow> string" where
  "soap_param kv = ''<'' @ fst kv @ ''>'' @ snd kv @ ''</'' @ fst kv @ ''>''"

definition createSOAP :: "string \<Rightarrow> (string \<times> string) list \<Rightarrow> string" where
  "createSOAP action params =
     foldl (\<lambda>xmlBody kv. xmlBody @ soap_param kv) (soap_open action) params @ soap_close action"

text \<open>
  \<open>parseXmlResponse\<close>. \<open>parser.parseStringPromise\<close> of xml2js is the parameter
  \<open>parse\<close>: the tree, or the error it rejects with. The \<open>catch\<close> wraps every error
  thrown inside the \<open>try\<close>, the function's own included.
\<close>

type_synonym xml_parser = "string \<Rightarrow> error + jsval"

definition body_of :: "jsval \<Rightarrow> error + jsval" where
  "body_of result =
     (case js_get result ''Envelope'' of
        Inl e \<Rightarrow> Inl e
      | Inr envelope \<Rightarrow>
          if \<not> truthy envelope
          then Inl (Error ''Invalid SOAP response: Envelope or Body not found'')
          else (case js_get envelope ''Body'' of
                  Inl e \<Rightarrow> Inl e
                | Inr body \<Rightarrow>
                    if \<not> truthy body
                    then Inl (Error ''Invalid SOAP response: Envelope or Body not found'')
                    else Inr body))"

definition first_entry :: "jsval \<Rightarrow> error + jsval" where
  "first_entry body =
     (case js_keys body of
        Inl e \<Rightarrow> Inl e
      | Inr keys \<Rightarrow>
          (case keys of
             [] \<Rightarrow> js_get body ''undefined''
           | responseKey # _ \<Rightarrow> js_get body responseKey))"

definition parseXmlResponse :: "xml_parser \<Rightarrow> string \<Rightarrow> error + jsval" where
  "parseXmlResponse parse xmlString =
     (case (case parse xmlString of
              Inl e \<Rightarrow> Inl e
            | Inr result \<Rightarrow>
                (case body_of result of
                   Inl e \<Rightarrow> Inl e
                 | Inr body \<Rightarrow> first_entry body))
      of Inl error \<Rightarrow> Inl (Error (''XML parsing failed: '' @ message error))
       | Inr v \<Rightarrow> Inr v)"

section \<open>The client: the two login steps\<close>

text \<open>
  A step returns its outcome (\<open>Inl\<close> the error thrown) and the client as the step left
  it, since a step may throw after it has written fields.
\<close>

definition requestLoginChallenge ::
  "md5_other \<Rightarrow> transport \<Rightarrow> xml_parser \<Rightarrow> int \<Rightarrow> client \<Rightarrow> (error + unit) \<times> client" where
  "requestLoginChallenge other post parse now c =
     (let action = ''Login'';
          body = createSOAP action
                   [(''Action'', ''request''), (''Username'', username c),
                    (''LoginPassword'', ''''), (''Captcha'', '''')]
      in case makeHNAPRequest other post now action body c of
           (Inl e, c1) \<Rightarrow> (Inl e, c1)
         | (Inr response, c1) \<Rightarrow>
             (case parseXmlResponse parse response of
                Inl e \<Rightarrow> (Inl e, c1)
              | Inr result \<Rightarrow>
                  (case js_get result ''Challenge'' of
                     Inl e \<Rightarrow> (Inl e, c1)
                   | Inr ch \<Rightarrow>
                  (case js_get result ''Cookie'' of
                     Inl e \<Rightarrow> (Inl e, c1\<lparr>challenge := ch\<rparr>)
                   | Inr ck \<Rightarrow>
                  (case js_get result ''PublicKey'' of
                     Inl e \<Rightarrow> (Inl e, c1\<lparr>challenge := ch, cookie := ck\<rparr>)
                   | Inr pk \<Rightarrow>
                       (let c2 = c1\<lparr>challenge := ch, cookie := ck, publicKey := pk\<rparr>
                        in if \<not> truthy (challenge c2) \<or> \<not> truthy (cookie c2) \<or> \<not> truthy (publicKey c2)
                           then (Inl (Error ''Login challenge request failed''), c2)
                           else (Inr (), c2)))))))"

text \<open>
  \<open>performLogin\<close> in two parts: \<open>login_exchange\<close> is its second half, from the
  building of the envelope to the check of \<open>LoginResult\<close>.
\<close>

definition login_exchange ::
  "md5_other \<Rightarrow> transport \<Rightarrow> xml_parser \<Rightarrow> int \<Rightarrow> string \<Rightarrow> client \<Rightarrow> (error + unit) \<times> client" where
  "login_exchange other post parse now loginPassword c =
     (let action = ''Login'';
          body = createSOAP action
                   [(''Action'', ''login''), (''Username'', username c),
                    (''LoginPassword'', loginPassword), (''Captcha'', '''')]
      in case makeHNAPRequest other post now action body c of
           (Inl e, c2) \<Rightarrow> (Inl e, c2)
         | (Inr response, c2) \<Rightarrow>
             (case parseXmlResponse parse response of
                Inl e \<Rightarrow> (Inl e, c2)
              | Inr result \<Rightarrow>
                  (case js_get result ''LoginResult'' of
                     Inl e \<Rightarrow> (Inl e, c2)
                   | Inr r \<Rightarrow>
                       if r \<noteq> JStr ''success''
                       then (Inl (Error ''Login failed''), c2)
                       else (Inr (), c2))))"

definition performLogin ::
  "md5_other \<Rightarrow> transport \<Rightarrow> xml_parser \<Rightarrow> int \<Rightarrow> client \<Rightarrow> (error + unit) \<times> client" where
  "performLogin other post parse now c =
     (case generatePrivateKey other c of
        Inl e \<Rightarrow> (Inl e, c)
      | Inr key \<Rightarrow>
          (case generateLoginPassword other (c\<lparr>privateKey := JStr key\<rparr>) of
             Inl e \<Rightarrow> (Inl e, c\<lparr>privateKey := JStr key\<rparr>)
           | Inr loginPassword \<Rightarrow>
               login_exchange other post parse now loginPassword (c\<lparr>privateKey := JStr key\<rparr>)))"

text \<open>\<open>login\<close>: the two steps in order, each with its own clock reading.\<close>

definition login ::
  "md5_other \<Rightarrow> transport \<Rightarrow> xml_parser \<Rightarrow> int \<Rightarrow> int \<Rightarrow> client \<Rightarrow> (error + unit) \<times> client" where
  "login other post parse now1 now2 c =
     (case requestLoginChallenge other post parse now1 c of
        (Inl e, c1) \<Rightarrow> (Inl e, c1)
      | (Inr u, c1) \<Rightarrow> performLogin other post parse now2 c1)"

section \<open>The parser the client configures\<close>

text \<open>
  xml2js is a library outside the repository. The client's functions take the parser as a
  parameter; \<open>xml2js_parse\<close> below is a model of the library for the options the client
  sets (\<open>explicitArray: false\<close>, \<open>ignoreAttrs: true\<close>,
  \<open>tagNameProcessors: [stripPrefix]\<close>, the rest at their defaults, among them
  \<open>strict: true\<close> and \<open>emptyTag: ''\<close>), on a fragment of XML: ASCII documents with
  processing instructions, elements with quoted attributes, self-closing elements and
  character data. Outside the fragment, and reported as such, are comments, CDATA
  sections and document type declarations, entity references, characters beyond
  ASCII, and elements whose name after prefix stripping is the library's character key
  \<open>_\<close> or a member of \<open>Object.prototype\<close> (the library tests \<open>key in obj\<close>). The
  wording of the library's own error messages and the tokenizer's buffer limits are not
  modelled.

  The library drives a SAX tokenizer in strict mode, one character at a time, through
  the states below. An opening tag pushes a node, text is appended to the node on top, a
  closing tag pops the node and stores its value under its stripped name in the parent.
  The value of a node is its text when it has no child elements (the empty or blank text
  for an empty element), else the object of its children, blank text dropped and other
  text kept under \<open>_\<close>. A repeated name turns the parent's entry into an array. The
  promise settles at the first of: an error, or the closing tag of the root, which
  resolves it with the tree; what follows in the input has no effect. An input that is
  blank, or ends before any element, gives \<open>null\<close>.
\<close>

datatype sax_state =
    Begin
  | InText
  | OpenWaka
  | OpenTag string
  | OpenTagSlash string
  | Attrib string
  | AttribName string
  | AttribNameSawWhite string
  | AttribValue string
  | AttribValueQuoted string char
  | AttribValueClosed string
  | CloseTag string
  | CloseTagSawWhite string
  | ProcInst
  | ProcInstEnding

text \<open>The tokenizer's whitespace, the blank characters of \<open>\s\<close>, and the characters of names.\<close>

definition is_space :: "char \<Rightarrow> bool" where
  "is_space ch = (ch \<in> set [CHR '' '', CHR 0x0A, CHR 0x0D, CHR 0x09])"

definition js_blank :: "char \<Rightarrow> bool" where
  "js_blank ch = (ch \<in> set [CHR '' '', CHR 0x0A, CHR 0x0D, CHR 0x09, CHR 0x0B, CHR 0x0C])"

definition non_ascii :: "char \<Rightarrow> bool" where
  "non_ascii ch = (\<not> (of_char ch :: nat) < 128)"

definition name_start :: "char \<Rightarrow> bool" where
  "name_start ch =
     (ch \<in> set ''ABCDEFGHIJKLMNOPQRSTUVWXYZabcdefghijklmnopqrstuvwxyz_:'')"

definition name_body :: "char \<Rightarrow> bool" where
  "name_body ch = (name_start ch \<or> ch \<in> set ''-.0123456789'')"

definition outside_fragment :: "error" where
  "outside_fragment = Error ''outside the modelled fragment of XML''"

text \<open>
  \<open>processors.stripPrefix\<close>: the name without its namespace prefix, unless it starts with
  \<open>xmlns\<close>.
\<close>

definition after_last_colon :: "string \<Rightarrow> string" where
  "after_last_colon s = rev (takeWhile (\<lambda>x. x \<noteq> CHR '':'') (rev s))"

definition stripPrefix :: "string \<Rightarrow> string" where
  "stripPrefix s = (if take 5 s = ''xmlns'' then s else after_last_colon s)"

definition reserved_keys :: "string list" where
  "reserved_keys =
     [''_'', ''constructor'', ''hasOwnProperty'', ''isPrototypeOf'', ''propertyIsEnumerable'',
      ''toLocaleString'', ''toString'', ''valueOf'', ''__proto__'', ''__defineGetter__'',
      ''__defineSetter__'', ''__lookupGetter__'', ''__lookupSetter__'']"

text \<open>A node under construction: its tag as written, its text, its children so far.\<close>

type_synonym frame = "string \<times> string \<times> (string \<times> jsval) list"

definition close_value :: "string \<Rightarrow> (string \<times> jsval) list \<Rightarrow> jsval" where
  "close_value text children =
     (if list_all js_blank text then (if children = [] then JStr text else JObj children)
      else if children = [] then JStr text
      else JObj ((''_'', JStr text) # children))"

fun assignOrPush :: "(string \<times> jsval) list \<Rightarrow> string \<Rightarrow> jsval \<Rightarrow> (string \<times> jsval) list" where
  "assignOrPush [] key newValue = [(key, newValue)]"
| "assignOrPush ((k, old) # kvs) key newValue =
     (if k = key
      then (k, (case old of JArr xs \<Rightarrow> JArr (xs @ [newValue]) | _ \<Rightarrow> JArr [old, newValue])) # kvs
      else (k, old) # assignOrPush kvs key newValue)"

definition onopentag :: "string \<Rightarrow> frame list \<Rightarrow> error + frame list" where
  "onopentag n stack =
     (if stripPrefix n \<in> set reserved_keys then Inl outside_fragment
      else Inr ((n, [], []) # stack))"

definition ontext :: "char \<Rightarrow> frame list \<Rightarrow> frame list" where
  "ontext ch stack =
     (case stack of
        [] \<Rightarrow> []
      | (n, text, children) # up \<Rightarrow> (n, text @ [ch], children) # up)"

text \<open>
  A closing tag must name the node on top. Closing the root resolves with the tree
  (\<open>Inr (Inl tree)\<close>); closing another node goes on with the new stack.
\<close>

definition onclosetag :: "string \<Rightarrow> frame list \<Rightarrow> error + (jsval + frame list)" where
  "onclosetag n stack =
     (case stack of
        [] \<Rightarrow> Inl (Error ''Unmatched closing tag'')
      | (m, text, children) # rest \<Rightarrow>
          if n \<noteq> m then Inl (Error ''Unexpected close tag'')
          else (case rest of
                  [] \<Rightarrow> Inr (Inl (JObj [(stripPrefix m, close_value text children)]))
                | (pn, ptext, pchildren) # up \<Rightarrow>
                    Inr (Inr ((pn, ptext,
                               assignOrPush pchildren (stripPrefix m) (close_value text children))
                              # up))))"

fun sax :: "sax_state \<Rightarrow> frame list \<Rightarrow> string \<Rightarrow> error + jsval" where
  "sax Begin stack [] = (if stack = [] then Inr JNull else Inl (Error ''Unclosed root tag''))"
| "sax InText stack [] = (if stack = [] then Inr JNull else Inl (Error ''Unclosed root tag''))"
| "sax st stack [] = Inl (Error ''Unexpected end'')"
| "sax Begin stack (ch # cs) =
     (if ch = CHR ''<'' then sax OpenWaka stack cs
      else if is_space ch then sax Begin stack cs
      else Inl (Error ''Non-whitespace before first tag.''))"
| "sax InText stack (ch # cs) =
     (if ch = CHR ''<'' then sax OpenWaka stack cs
      else if stack = []
      then (if is_space ch then sax InText stack cs
            else Inl (Error ''Text data outside of root node.''))
      else if ch = CHR ''&'' then Inl outside_fragment
      else sax InText (ontext ch stack) cs)"
| "sax OpenWaka stack (ch # cs) =
     (if ch = CHR ''!'' then Inl outside_fragment
      else if is_space ch then sax OpenWaka stack cs
      else if name_start ch then sax (OpenTag [ch]) stack cs
      else if ch = CHR ''/'' then sax (CloseTag []) stack cs
      else if ch = CHR ''?'' then sax ProcInst stack cs
      else Inl (Error ''Unencoded <''))"
| "sax (OpenTag n) stack (ch # cs) =
     (if name_body ch then sax (OpenTag (n @ [ch])) stack cs
      else if ch = CHR ''>''
      then (case onopentag n stack of
              Inl e \<Rightarrow> Inl e
            | Inr opened \<Rightarrow> sax InText opened cs)
      else if ch = CHR ''/'' then sax (OpenTagSlash n) stack cs
      else if is_space ch then sax (Attrib n) stack cs
      else Inl (Error ''Invalid character in tag name''))"
| "sax (OpenTagSlash n) stack (ch # cs) =
     (if ch = CHR ''>''
      then (case onopentag n stack of
              Inl e \<Rightarrow> Inl e
            | Inr opened \<Rightarrow>
                (case onclosetag n opened of
                   Inl e \<Rightarrow> Inl e
                 | Inr (Inl tree) \<Rightarrow> Inr tree
                 | Inr (Inr closed) \<Rightarrow> sax InText closed cs))
      else Inl (Error ''Forward-slash in opening tag not followed by >''))"
| "sax (Attrib n) stack (ch # cs) =
     (if is_space ch then sax (Attrib n) stack cs
      else if ch = CHR ''>''
      then (case onopentag n stack of
              Inl e \<Rightarrow> Inl e
            | Inr opened \<Rightarrow> sax InText opened cs)
      else if ch = CHR ''/'' then sax (OpenTagSlash n) stack cs
      else if name_start ch then sax (AttribName n) stack cs
      else Inl (Error ''Invalid attribute name''))"
| "sax (AttribName n) stack (ch # cs) =
     (if ch = CHR ''='' then sax (AttribValue n) stack cs
      else if ch = CHR ''>'' then Inl (Error ''Attribute without value'')
      else if is_space ch then sax (AttribNameSawWhite n) stack cs
      else if name_body ch then sax (AttribName n) stack cs
      else Inl (Error ''Invalid attribute name''))"
| "sax (AttribNameSawWhite n) stack (ch # cs) =
     (if ch = CHR ''='' then sax (AttribValue n) stack cs
      else if is_space ch then sax (AttribNameSawWhite n) stack cs
      else Inl (Error ''Attribute without value''))"
| "sax (AttribValue n) stack (ch # cs) =
     (if is_space ch then sax (AttribValue n) stack cs
      else if ch = CHR 0x22 \<or> ch = CHR 0x27 then sax (AttribValueQuoted n ch) stack cs
      else Inl (Error ''Unquoted attribute value''))"
| "sax (AttribValueQuoted n q) stack (ch # cs) =
     (if ch = q then sax (AttribValueClosed n) stack cs
      else if ch = CHR ''&'' then Inl outside_fragment
      else sax (AttribValueQuoted n q) stack cs)"
| "sax (AttribValueClosed n) stack (ch # cs) =
     (if is_space ch then sax (Attrib n) stack cs
      else if ch = CHR ''>''
      then (case onopentag n stack of
              Inl e \<Rightarrow> Inl e
            | Inr opened \<Rightarrow> sax InText opened cs)
      else if ch = CHR ''/'' then sax (OpenTagSlash n) stack cs
      else Inl (Error ''No whitespace between attributes''))"
| "sax (CloseTag n) stack (ch # cs) =
     (if n = []
      then (if is_space ch then sax (CloseTag n) stack cs
            else if name_start ch then sax (CloseTag [ch]) stack cs
            else Inl (Error ''Invalid tagname in closing tag.''))
      else if ch = CHR ''>''
      then (case onclosetag n stack of
              Inl e \<Rightarrow> Inl e
            | Inr (Inl tree) \<Rightarrow> Inr tree
            | Inr (Inr closed) \<Rightarrow> sax InText closed cs)
      else if name_body ch then sax (CloseTag (n @ [ch])) stack cs
      else if is_space ch then sax (CloseTagSawWhite n) stack cs
      else Inl (Error ''Invalid tagname in closing tag''))"
| "sax (CloseTagSawWhite n) stack (ch # cs) =
     (if is_space ch then sax (CloseTagSawWhite n) stack cs
      else if ch = CHR ''>''
      then (case onclosetag n stack of
              Inl e \<Rightarrow> Inl e
            | Inr (Inl tree) \<Rightarrow> Inr tree
            | Inr (Inr closed) \<Rightarrow> sax InText closed cs)
      else Inl (Error ''Invalid characters in closing tag''))"
| "sax ProcInst stack (ch # cs) =
     (if ch = CHR ''?'' then sax ProcInstEnding stack cs else sax ProcInst stack cs)"
| "sax ProcInstEnding stack (ch # cs) =
     (if ch = CHR ''>'' then sax InText stack cs else sax ProcInst stack cs)"

definition xml2js_parse :: "string \<Rightarrow> error + jsval" where
  "xml2js_parse xmlString =
     (if list_all js_blank xmlString then Inr JNull
      else if list_ex non_ascii xmlString then Inl outside_fragment
      else sax Begin [] xmlString)"

text \<open>
  The names of the client's own actions (\<open>Login\<close>, \<open>GetDeviceSettings\<close>, ...): a letter
  followed by letters and digits, short, and not one of the names of members of
  \<open>Object.prototype\<close>.
\<close>

definition letter :: "char \<Rightarrow> bool" where
  "letter ch = (ch \<in> set ''ABCDEFGHIJKLMNOPQRSTUVWXYZabcdefghijklmnopqrstuvwxyz'')"

definition name_char :: "char \<Rightarrow> bool" where
  "name_char ch =
     (ch \<in> set ''ABCDEFGHIJKLMNOPQRSTUVWXYZabcdefghijklmnopqrstuvwxyz0123456789'')"

definition action_name :: "string \<Rightarrow> bool" where
  "action_name a =
     (a \<noteq> [] \<and> letter (hd a) \<and> list_all name_char a \<and> length a \<le> 64
      \<and> a \<notin> set reserved_keys)"

section \<open>Sample sessions\<close>

text \<open>
  Concrete inputs for the instances below: the client of the usage example, a client
  after a handshake with the spec's sample challenge and public key, two ways
  \<open>md5.js\<close> may treat an argument that is not a string (throw, as code that reads the
  argument's length does, or convert it to a string first), and routers that answer
  every request with one fixed document, or with the headers they were sent.
\<close>

definition fresh_client :: client where
  "fresh_client = new_client ''192.168.0.1'' ''Admin'' ''''"

definition challenged_client :: client where
  "challenged_client =
     fresh_client\<lparr>cookie := JStr ''c0ffee'', publicKey := JStr ''FEDCBA0987654321'',
                   challenge := JStr ''1234567890ABCDEF''\<rparr>"

definition logged_in_client :: client where
  "logged_in_client = challenged_client\<lparr>privateKey := JStr ''AFD7C9CA53E4BEACF88B53B036120B7C''\<rparr>"

definition md5_throws :: md5_other where
  "md5_throws k d = Inl (TypeError ''Cannot read properties of null (reading length)'')"

definition md5_coerces :: md5_other where
  "md5_coerces k d = Inr (hmac (js_toString k) (js_toString d))"

definition router_replying :: "string \<Rightarrow> transport" where
  "router_replying reply url body headers = Inr reply"

definition header_line :: "string \<times> string \<Rightarrow> string" where
  "header_line kv = fst kv @ '': '' @ snd kv @ ''\<newline>''"

definition router_echoing_headers :: transport where
  "router_echoing_headers url body headers = Inr (concat (map header_line headers))"

definition challenge_only_reply :: string where
  "challenge_only_reply =
     ''<soap:Envelope><soap:Body><LoginResponse><Challenge>1234567890ABCDEF</Challenge>'' @
     ''<Cookie></Cookie></LoginResponse></soap:Body></soap:Envelope>''"

definition full_challenge_reply :: string where
  "full_challenge_reply =
     ''<soap:Envelope><soap:Body><LoginResponse><Challenge>1234567890ABCDEF</Challenge>'' @
     ''<Cookie>c0ffee</Cookie><PublicKey>FEDCBA0987654321</PublicKey>'' @
     ''</LoginResponse></soap:Body></soap:Envelope>''"

definition success_reply :: string where
  "success_reply =
     ''<soap:Envelope><soap:Body><LoginResponse><LoginResult>success</LoginResult>'' @
     ''</LoginResponse></soap:Body></soap:Envelope>''"

section \<open>Properties\<close>

subsection \<open>The keyed hash\<close>

lemma hmac_reference_vector:
  "hmac ''Jefe'' ''what do ya want for nothing?'' = ''750c783e6ab0b503eaa86e310a5db738''"
  by code_simp

subsection \<open>Timestamps\<close>

lemma js_rem_nonneg: "0 \<le> a \<Longrightarrow> 0 < b \<Longrightarrow> js_rem a b = a mod b"
  by (simp add: js_rem_def)

text \<open>
  C2. The claim: successive calls of \<open>getUniqueTimestamp\<close> on one client return a
  strictly increasing sequence, whatever the clock does, also when it reads the same
  millisecond every time. The code compares the clock only with the last value it
  returned: three calls within one millisecond return \<open>t\<close>, \<open>t + 1\<close> and \<open>t\<close> again,
  so the third value repeats the first and is smaller than the second.
\<close>

theorem getUniqueTimestamp_repeats:
  "fst (timestamps [1700000000000, 1700000000000, 1700000000000] fresh_client)
   = [''1700000000000'', ''1700000000001'', ''1700000000000'']"
  by code_simp

subsection \<open>The authentication header\<close>

text \<open>
  C6. On a client whose \<open>privateKey\<close> is a string, \<open>generateHnapAuth\<close> returns
  signature, space, timestamp: the timestamp is the clock reduced by \<open>%\<close> with
  \<open>2 * 10^12\<close> (the mathematical modulus for a clock at or after the epoch), plus one
  when that equals the stored last timestamp; the signature is the uppercased hexadecimal
  keyed hash with the private key as key and the timestamp's decimal string followed by
  the action string as message. The timestamp is stored as the new last timestamp.
\<close>

theorem generateHnapAuth_value:
  assumes "privateKey c = JStr key"
  shows "generateHnapAuth other now soapAction c =
           (let t0 = js_rem now 2000000000000;
                timestamp = (if compareTimeStamp c = t0 then t0 + 1 else t0);
                signature = toUpperCase (hmac key (int_toString timestamp @ soapAction))
            in (Inr (signature @ '' '' @ int_toString timestamp),
                c\<lparr>compareTimeStamp := timestamp\<rparr>))
         \<and> (0 \<le> now \<longrightarrow> js_rem now 2000000000000 = now mod (2 * 10 ^ 12))"
  using assms
  by (simp add: generateHnapAuth_def getUniqueTimestamp_def Let_def js_rem_nonneg)

subsection \<open>Request headers\<close>

lemma hnap_headers_cases:
  "hnap_headers other now action c =
     (if truthy (privateKey c)
      then (case generateHnapAuth other now (soap_action action) c of
              (Inl e, c1) \<Rightarrow> (Inl e, c1)
            | (Inr auth, c1) \<Rightarrow>
                (Inr ([(''Content-Type'', ''text/xml; charset=utf-8''),
                       (''SOAPAction'', soap_action action), (''HNAP_AUTH'', auth)]
                      @ (if truthy (cookie c) then [(''Cookie'', ''uid='' @ js_toString (cookie c))] else [])), c1))
      else (Inr ([(''Content-Type'', ''text/xml; charset=utf-8''), (''SOAPAction'', soap_action action)]
                 @ (if truthy (cookie c) then [(''Cookie'', ''uid='' @ js_toString (cookie c))] else [])), c))"
  by (simp add: hnap_headers_def Let_def split: prod.splits sum.splits)

text \<open>
  C8. Whenever \<open>makeHNAPRequest\<close> gets as far as building its headers, the transport is
  called with exactly those headers, and among them \<open>HNAP_AUTH\<close> is present if and only
  if \<open>privateKey\<close> is set, and \<open>Cookie\<close> is present, with the value \<open>uid=\<close> followed
  by the cookie, if and only if \<open>cookie\<close> is set. Set is what the code tests: the value is
  truthy, that is, neither \<open>null\<close> nor \<open>undefined\<close> nor the empty string. With
  \<open>privateKey\<close> \<open>null\<close> there is no \<open>HNAP_AUTH\<close> header.
\<close>

theorem makeHNAPRequest_headers:
  assumes "hnap_headers other now action c = (Inr hs, c1)"
  shows "makeHNAPRequest other post now action body c =
           (case post (baseUrl c1) body hs of
              Inl err \<Rightarrow> (Inl (Error (''HNAP request failed: '' @ message err)), c1)
            | Inr data \<Rightarrow> (Inr data, c1))
       \<and> (map_of hs ''HNAP_AUTH'' \<noteq> None \<longleftrightarrow> truthy (privateKey c))
       \<and> map_of hs ''Cookie'' =
           (if truthy (cookie c) then Some (''uid='' @ js_toString (cookie c)) else None)
       \<and> (privateKey c = JNull \<longrightarrow> map_of hs ''HNAP_AUTH'' = None)"
proof -
  have sent: "makeHNAPRequest other post now action body c =
           (case post (baseUrl c1) body hs of
              Inl err \<Rightarrow> (Inl (Error (''HNAP request failed: '' @ message err)), c1)
            | Inr data \<Rightarrow> (Inr data, c1))"
    using assms by (simp add: makeHNAPRequest_def)
  have auth: "map_of hs ''HNAP_AUTH'' \<noteq> None \<longleftrightarrow> truthy (privateKey c)"
    using assms by (auto simp: hnap_headers_cases split: if_splits prod.splits sum.splits)
  have ck: "map_of hs ''Cookie'' =
           (if truthy (cookie c) then Some (''uid='' @ js_toString (cookie c)) else None)"
    using assms by (auto simp: hnap_headers_cases split: if_splits prod.splits sum.splits)
  have "privateKey c = JNull \<longrightarrow> map_of hs ''HNAP_AUTH'' = None"
    using auth by auto
  with sent auth ck show ?thesis by blast
qed

subsection \<open>A sample authenticated request\<close>

lemma sample_timestamp: "int_toString 1700000000123 = ''1700000000123''"
  by code_simp

lemma sample_signature:
  "toUpperCase (hmac ''AFD7C9CA53E4BEACF88B53B036120B7C''
     ''1700000000123\"http://purenetworks.com/HNAP1/GetDeviceSettings\"'')
   = ''AA6161CF94ADB409ED831685855433BC''"
  by code_simp

lemma sample_auth:
  "generateHnapAuth other 1700000000123 (soap_action ''GetDeviceSettings'') logged_in_client
   = (Inr ''AA6161CF94ADB409ED831685855433BC 1700000000123'',
      logged_in_client\<lparr>compareTimeStamp := 1700000000123\<rparr>)"
proof -
  have ts: "getUniqueTimestamp 1700000000123 logged_in_client
            = (''1700000000123'', logged_in_client\<lparr>compareTimeStamp := 1700000000123\<rparr>)"
    by (simp add: getUniqueTimestamp_def Let_def js_rem_def sample_timestamp
          logged_in_client_def challenged_client_def fresh_client_def new_client_def)
  have pk: "privateKey (logged_in_client\<lparr>compareTimeStamp := 1700000000123\<rparr>)
            = JStr ''AFD7C9CA53E4BEACF88B53B036120B7C''"
    by (simp add: logged_in_client_def)
  show ?thesis
    unfolding generateHnapAuth_def ts
    by (simp add: pk soap_action_def sample_signature)
qed

lemma sample_headers:
  "hnap_headers other 1700000000123 ''GetDeviceSettings'' logged_in_client
   = (Inr [(''Content-Type'', ''text/xml; charset=utf-8''),
           (''SOAPAction'', ''\"http://purenetworks.com/HNAP1/GetDeviceSettings\"''),
           (''HNAP_AUTH'', ''AA6161CF94ADB409ED831685855433BC 1700000000123''),
           (''Cookie'', ''uid=c0ffee'')],
      logged_in_client\<lparr>compareTimeStamp := 1700000000123\<rparr>)"
proof -
  have t: "truthy (privateKey logged_in_client)" "truthy (cookie logged_in_client)"
    "js_toString (cookie logged_in_client) = ''c0ffee''"
    by (simp_all add: logged_in_client_def challenged_client_def)
  show ?thesis
    by (simp add: hnap_headers_cases t sample_auth) (simp add: soap_action_def)
qed

theorem generateHnapAuth_value_witness:
  "privateKey logged_in_client = JStr ''AFD7C9CA53E4BEACF88B53B036120B7C''
   \<and> generateHnapAuth md5_throws 1700000000123 (soap_action ''GetDeviceSettings'') logged_in_client
       = (Inr ''AA6161CF94ADB409ED831685855433BC 1700000000123'',
          logged_in_client\<lparr>compareTimeStamp := 1700000000123\<rparr>)
   \<and> (0 \<le> (1700000000123::int) \<and> js_rem 1700000000123 2000000000000 = 1700000000123 mod (2 * 10 ^ 12))"
proof -
  have k: "privateKey logged_in_client = JStr ''AFD7C9CA53E4BEACF88B53B036120B7C''"
    by (simp add: logged_in_client_def)
  have t: "compareTimeStamp logged_in_client = 0"
    by (simp add: logged_in_client_def challenged_client_def fresh_client_def new_client_def)
  from generateHnapAuth_value [OF k, of md5_throws 1700000000123 "soap_action ''GetDeviceSettings''"]
  show ?thesis
    using k by (simp add: Let_def js_rem_def t sample_timestamp soap_action_def sample_signature)
qed

theorem makeHNAPRequest_headers_witness:
  "hnap_headers md5_throws 1700000000123 ''GetDeviceSettings'' logged_in_client
   = (Inr [(''Content-Type'', ''text/xml; charset=utf-8''),
           (''SOAPAction'', ''\"http://purenetworks.com/HNAP1/GetDeviceSettings\"''),
           (''HNAP_AUTH'', ''AA6161CF94ADB409ED831685855433BC 1700000000123''),
           (''Cookie'', ''uid=c0ffee'')],
      logged_in_client\<lparr>compareTimeStamp := 1700000000123\<rparr>)
   \<and> makeHNAPRequest md5_throws (router_replying success_reply) 1700000000123
         ''GetDeviceSettings'' (createSOAP ''GetDeviceSettings'' []) logged_in_client
       = (Inr success_reply, logged_in_client\<lparr>compareTimeStamp := 1700000000123\<rparr>)
   \<and> truthy (privateKey logged_in_client) \<and> truthy (cookie logged_in_client)
   \<and> privateKey logged_in_client \<noteq> JNull"
proof -
  have t: "truthy (privateKey logged_in_client)" "truthy (cookie logged_in_client)"
    by (simp_all add: logged_in_client_def challenged_client_def)
  from makeHNAPRequest_headers [OF sample_headers, of md5_throws "router_replying success_reply"
         "createSOAP ''GetDeviceSettings'' []"]
  show ?thesis
    using t sample_headers [of md5_throws] by (auto simp: router_replying_def)
qed

text \<open>
  C9. For every action name \<open>a\<close>, \<open>makeHNAPRequest\<close> calls the transport with a
  \<open>SOAPAction\<close> header that is the action URI between two double-quote characters, and
  on a client with a private key also with an \<open>HNAP_AUTH\<close> header whose signature is
  the keyed hash, under the private key, of the timestamp followed by that same quoted
  string: the quote characters are part of what is signed.
\<close>

theorem soapAction_quoted_and_signed:
  "(privateKey c = JStr key \<and> key \<noteq> [] \<longrightarrow>
      makeHNAPRequest other post now a body c =
        (case post (baseUrl c) body
                ([(''Content-Type'', ''text/xml; charset=utf-8''),
                  (''SOAPAction'', ''\"http://purenetworks.com/HNAP1/'' @ a @ ''\"''),
                  (''HNAP_AUTH'',
                   toUpperCase
                     (hmac key (fst (getUniqueTimestamp now c)
                                @ ''\"http://purenetworks.com/HNAP1/'' @ a @ ''\"''))
                   @ '' '' @ fst (getUniqueTimestamp now c))]
                 @ (if truthy (cookie c) then [(''Cookie'', ''uid='' @ js_toString (cookie c))] else []))
         of Inl err \<Rightarrow> (Inl (Error (''HNAP request failed: '' @ message err)),
                        snd (getUniqueTimestamp now c))
          | Inr data \<Rightarrow> (Inr data, snd (getUniqueTimestamp now c))))
   \<and> (\<not> truthy (privateKey c) \<longrightarrow>
      makeHNAPRequest other post now a body c =
        (case post (baseUrl c) body
                ([(''Content-Type'', ''text/xml; charset=utf-8''),
                  (''SOAPAction'', ''\"http://purenetworks.com/HNAP1/'' @ a @ ''\"'')]
                 @ (if truthy (cookie c) then [(''Cookie'', ''uid='' @ js_toString (cookie c))] else []))
         of Inl err \<Rightarrow> (Inl (Error (''HNAP request failed: '' @ message err)), c)
          | Inr data \<Rightarrow> (Inr data, c)))"
proof -
  obtain ts c1 where g: "getUniqueTimestamp now c = (ts, c1)"
    by (cases "getUniqueTimestamp now c")
  have f: "privateKey c1 = privateKey c" "baseUrl c1 = baseUrl c"
    using g by (auto simp: getUniqueTimestamp_def Let_def)
  show ?thesis
    by (simp add: makeHNAPRequest_def hnap_headers_cases generateHnapAuth_def g f soap_action_def
          split: sum.splits)
qed

theorem soapAction_quoted_and_signed_witness:
  "privateKey logged_in_client = JStr ''AFD7C9CA53E4BEACF88B53B036120B7C''
   \<and> ''AFD7C9CA53E4BEACF88B53B036120B7C'' \<noteq> []
   \<and> makeHNAPRequest md5_throws router_echoing_headers 1700000000123 ''GetDeviceSettings''
         (createSOAP ''GetDeviceSettings'' []) logged_in_client
       = (Inr (''Content-Type: text/xml; charset=utf-8\<newline>'' @
               ''SOAPAction: \"http://purenetworks.com/HNAP1/GetDeviceSettings\"\<newline>'' @
               ''HNAP_AUTH: AA6161CF94ADB409ED831685855433BC 1700000000123\<newline>'' @
               ''Cookie: uid=c0ffee\<newline>''),
          logged_in_client\<lparr>compareTimeStamp := 1700000000123\<rparr>)"
proof -
  have k: "privateKey logged_in_client = JStr ''AFD7C9CA53E4BEACF88B53B036120B7C''"
    by (simp add: logged_in_client_def)
  have t: "getUniqueTimestamp 1700000000123 logged_in_client
           = (''1700000000123'', logged_in_client\<lparr>compareTimeStamp := 1700000000123\<rparr>)"
    by (simp add: getUniqueTimestamp_def Let_def js_rem_def sample_timestamp
          logged_in_client_def challenged_client_def fresh_client_def new_client_def)
  have ck: "truthy (cookie logged_in_client)" "js_toString (cookie logged_in_client) = ''c0ffee''"
    by (simp_all add: logged_in_client_def challenged_client_def)
  show ?thesis
    using soapAction_quoted_and_signed
            [of logged_in_client "''AFD7C9CA53E4BEACF88B53B036120B7C''" md5_throws
                router_echoing_headers 1700000000123 "''GetDeviceSettings''"
                "createSOAP ''GetDeviceSettings'' []"]
          k
    by (simp add: t ck sample_signature router_echoing_headers_def header_line_def)
qed

subsection \<open>Credential derivation\<close>

lemma sample_private_key:
  "toUpperCase (hmac ''FEDCBA0987654321'' ''1234567890ABCDEF'') = ''AFD7C9CA53E4BEACF88B53B036120B7C''"
  by code_simp

lemma sample_private_key_swapped:
  "toUpperCase (hmac ''1234567890ABCDEF'' ''FEDCBA0987654321'') = ''1EC22BF5EA0554039ACF972D05EBD4CD''"
  by code_simp

lemma sample_login_password:
  "toUpperCase (hmac ''AFD7C9CA53E4BEACF88B53B036120B7C'' ''1234567890ABCDEF'')
   = ''A2E653DFBC2F9442B8E479FF071173B8''"
  by code_simp

lemma sample_login_password_swapped:
  "toUpperCase (hmac ''1234567890ABCDEF'' ''AFD7C9CA53E4BEACF88B53B036120B7C'')
   = ''8089C7B1647A76FB9F26EC1A4EA79114''"
  by code_simp

lemma sample_fields:
  "publicKey challenged_client = JStr ''FEDCBA0987654321''"
  "challenge challenged_client = JStr ''1234567890ABCDEF''"
  "password challenged_client = []"
  "privateKey logged_in_client = JStr ''AFD7C9CA53E4BEACF88B53B036120B7C''"
  "challenge logged_in_client = JStr ''1234567890ABCDEF''"
  by (simp_all add: logged_in_client_def challenged_client_def fresh_client_def new_client_def)

text \<open>
  C1. The claim: \<open>generatePrivateKey\<close> is the uppercased keyed hash with the challenge as
  key and public key followed by password as message, and \<open>generateLoginPassword\<close> the
  one with the challenge as key and the private key as message. The code passes the
  arguments the other way round: \<open>hex_hmac_md5(publicKey + password, challenge)\<close> and
  \<open>hex_hmac_md5(privateKey, challenge)\<close>, key first. On the spec's sample challenge and
  public key, with the empty password, the two readings give different digests.
\<close>

theorem credentials_differ_from_challenge_keyed:
  "generatePrivateKey md5_throws challenged_client = Inr ''AFD7C9CA53E4BEACF88B53B036120B7C''
   \<and> derivePrivateKey ''FEDCBA0987654321'' '''' ''1234567890ABCDEF'' = ''1EC22BF5EA0554039ACF972D05EBD4CD''
   \<and> generatePrivateKey md5_throws challenged_client
       \<noteq> Inr (derivePrivateKey ''FEDCBA0987654321'' '''' ''1234567890ABCDEF'')
   \<and> generateLoginPassword md5_throws logged_in_client = Inr ''A2E653DFBC2F9442B8E479FF071173B8''
   \<and> deriveLoginProof ''AFD7C9CA53E4BEACF88B53B036120B7C'' ''1234567890ABCDEF''
       = ''8089C7B1647A76FB9F26EC1A4EA79114''
   \<and> generateLoginPassword md5_throws logged_in_client
       \<noteq> Inr (deriveLoginProof ''AFD7C9CA53E4BEACF88B53B036120B7C'' ''1234567890ABCDEF'')"
  by (simp add: generatePrivateKey_def generateLoginPassword_def derivePrivateKey_def
        deriveLoginProof_def sample_fields sample_private_key sample_private_key_swapped
        sample_login_password sample_login_password_swapped)

text \<open>
  C1, as the code has it: on string fields, \<open>generatePrivateKey\<close> returns the uppercased
  hexadecimal keyed hash with public key followed by password as the key and the
  challenge as the message, and \<open>generateLoginPassword\<close> the one with the private key as
  the key and the challenge as the message.
\<close>

theorem credentials_keyed_by_secret:
  "(publicKey c = JStr pub \<and> challenge c = JStr chal \<longrightarrow>
      generatePrivateKey other c = Inr (toUpperCase (hmac (pub @ password c) chal)))
   \<and> (privateKey c = JStr priv \<and> challenge c = JStr chal \<longrightarrow>
      generateLoginPassword other c = Inr (toUpperCase (hmac priv chal)))"
  by (simp add: generatePrivateKey_def generateLoginPassword_def)

theorem credentials_keyed_by_secret_witness:
  "publicKey challenged_client = JStr ''FEDCBA0987654321''
   \<and> challenge challenged_client = JStr ''1234567890ABCDEF''
   \<and> generatePrivateKey md5_throws challenged_client = Inr ''AFD7C9CA53E4BEACF88B53B036120B7C''
   \<and> privateKey logged_in_client = JStr ''AFD7C9CA53E4BEACF88B53B036120B7C''
   \<and> challenge logged_in_client = JStr ''1234567890ABCDEF''
   \<and> generateLoginPassword md5_throws logged_in_client = Inr ''A2E653DFBC2F9442B8E479FF071173B8''"
  using credentials_keyed_by_secret
          [of challenged_client "''FEDCBA0987654321''" "''1234567890ABCDEF''" md5_throws
              "''AFD7C9CA53E4BEACF88B53B036120B7C''"]
        credentials_keyed_by_secret
          [of logged_in_client "''FEDCBA0987654321''" "''1234567890ABCDEF''" md5_throws
              "''AFD7C9CA53E4BEACF88B53B036120B7C''"]
  by (simp add: sample_fields sample_private_key sample_login_password)

subsection \<open>The login steps\<close>

lemma fresh_fields:
  "publicKey (new_client ip user pw) = JNull"
  "challenge (new_client ip user pw) = JNull"
  "cookie (new_client ip user pw) = JNull"
  "privateKey (new_client ip user pw) = JNull"
  "password (new_client ip user pw) = pw"
  "username (new_client ip user pw) = user"
  "compareTimeStamp (new_client ip user pw) = 0"
  by (simp_all add: new_client_def)

lemma success_reply_parsed:
  "parseXmlResponse xml2js_parse success_reply = Inr (JObj [(''LoginResult'', JStr ''success'')])"
  by code_simp

lemma null_private_key:
  "toUpperCase (hmac ''null'' ''null'') = ''BB684BBF3BA8FFCC355B9A84ACC62EF2''"
  by code_simp

text \<open>
  C3. The claim: on a client on which \<open>requestLoginChallenge\<close> has not succeeded,
  \<open>performLogin\<close> fails with a handshake or precondition error before any request, and
  never computes credentials from the empty challenge material and sends them.
  \<open>performLogin\<close> makes no check: it starts by hashing \<open>null + password\<close> with the
  \<open>null\<close> challenge. If \<open>md5.js\<close> throws on \<open>null\<close>, the failure is that
  \<open>TypeError\<close>; if it converts its arguments to strings, the login request is sent with
  credentials derived from the text \<open>null\<close>, and a router that answers \<open>success\<close> is
  taken at its word.
\<close>

theorem performLogin_without_challenge:
  "performLogin md5_throws (router_replying success_reply) xml2js_parse 1700000000123 fresh_client
     = (Inl (TypeError ''Cannot read properties of null (reading length)''), fresh_client)
   \<and> performLogin md5_coerces (router_replying success_reply) xml2js_parse 1700000000123 fresh_client
     = (Inr (), fresh_client\<lparr>privateKey := JStr ''BB684BBF3BA8FFCC355B9A84ACC62EF2'',
                                compareTimeStamp := 1700000000123\<rparr>)"
proof -
  have a: "generatePrivateKey md5_throws fresh_client
           = Inl (TypeError ''Cannot read properties of null (reading length)'')"
    by (simp add: generatePrivateKey_def fresh_client_def fresh_fields md5_throws_def)
  have b: "generatePrivateKey md5_coerces fresh_client = Inr ''BB684BBF3BA8FFCC355B9A84ACC62EF2''"
    by (simp add: generatePrivateKey_def fresh_client_def fresh_fields md5_coerces_def null_private_key)
  have c: "\<exists>p. generateLoginPassword md5_coerces
             (fresh_client\<lparr>privateKey := JStr ''BB684BBF3BA8FFCC355B9A84ACC62EF2''\<rparr>) = Inr p"
    by (simp add: generateLoginPassword_def fresh_client_def fresh_fields md5_coerces_def)
  have d: "\<exists>hs. hnap_headers md5_coerces 1700000000123 ''Login''
             (fresh_client\<lparr>privateKey := JStr ''BB684BBF3BA8FFCC355B9A84ACC62EF2''\<rparr>)
           = (Inr hs, fresh_client\<lparr>privateKey := JStr ''BB684BBF3BA8FFCC355B9A84ACC62EF2'',
                                    compareTimeStamp := 1700000000123\<rparr>)"
    by (simp add: hnap_headers_cases generateHnapAuth_def getUniqueTimestamp_def Let_def js_rem_def
          fresh_client_def new_client_def)
  then obtain hs where hs: "hnap_headers md5_coerces 1700000000123 ''Login''
             (fresh_client\<lparr>privateKey := JStr ''BB684BBF3BA8FFCC355B9A84ACC62EF2''\<rparr>)
           = (Inr hs, fresh_client\<lparr>privateKey := JStr ''BB684BBF3BA8FFCC355B9A84ACC62EF2'',
                                    compareTimeStamp := 1700000000123\<rparr>)"
    by blast
  have e: "\<And>p. login_exchange md5_coerces (router_replying success_reply) xml2js_parse 1700000000123 p
             (fresh_client\<lparr>privateKey := JStr ''BB684BBF3BA8FFCC355B9A84ACC62EF2''\<rparr>)
           = (Inr (), fresh_client\<lparr>privateKey := JStr ''BB684BBF3BA8FFCC355B9A84ACC62EF2'',
                                      compareTimeStamp := 1700000000123\<rparr>)"
    by (simp add: login_exchange_def makeHNAPRequest_def Let_def hs router_replying_def
          success_reply_parsed)
  from c obtain p where p: "generateLoginPassword md5_coerces
             (fresh_client\<lparr>privateKey := JStr ''BB684BBF3BA8FFCC355B9A84ACC62EF2''\<rparr>) = Inr p"
    by blast
  show ?thesis
    by (simp add: performLogin_def a b p e)
qed

text \<open>
  C3, as the code has it: \<open>performLogin\<close> has no check of the handshake state. On a
  client whose public key and challenge are still \<open>null\<close> it first calls
  \<open>hex_hmac_md5\<close> with the message \<open>null\<close> followed by the password and with the
  \<open>null\<close> challenge. If that call throws, \<open>performLogin\<close> fails with that error,
  before any request and with the client unchanged. If it returns a digest, the digest is
  stored uppercased as the private key and hashed again with the \<open>null\<close> challenge;
  if that throws, \<open>performLogin\<close> fails with the private key already stored, else it
  goes on to send the login request with these credentials.
\<close>

theorem performLogin_unchecked:
  assumes "publicKey c = JNull" and "challenge c = JNull"
  shows "performLogin other post parse now c =
           (case other (JStr (''null'' @ password c)) JNull of
              Inl e \<Rightarrow> (Inl e, c)
            | Inr k \<Rightarrow>
                (case other (JStr (toUpperCase k)) JNull of
                   Inl e \<Rightarrow> (Inl e, c\<lparr>privateKey := JStr (toUpperCase k)\<rparr>)
                 | Inr p \<Rightarrow>
                     login_exchange other post parse now (toUpperCase p)
                       (c\<lparr>privateKey := JStr (toUpperCase k)\<rparr>)))"
  using assms
  by (simp add: performLogin_def generatePrivateKey_def generateLoginPassword_def
        split: sum.splits)

theorem performLogin_unchecked_witness:
  "publicKey fresh_client = JNull \<and> challenge fresh_client = JNull
   \<and> performLogin md5_throws (router_replying success_reply) xml2js_parse 0 fresh_client
       = (Inl (TypeError ''Cannot read properties of null (reading length)''), fresh_client)
   \<and> performLogin md5_coerces (router_replying success_reply) xml2js_parse 0 fresh_client
       = login_exchange md5_coerces (router_replying success_reply) xml2js_parse 0
           (toUpperCase (hmac ''BB684BBF3BA8FFCC355B9A84ACC62EF2'' ''null''))
           (fresh_client\<lparr>privateKey := JStr ''BB684BBF3BA8FFCC355B9A84ACC62EF2''\<rparr>)"
proof -
  have h: "publicKey fresh_client = JNull" "challenge fresh_client = JNull"
    by (simp_all add: fresh_client_def fresh_fields)
  have pw: "password fresh_client = []"
    by (simp add: fresh_client_def fresh_fields)
  show ?thesis
    using performLogin_unchecked [OF h, of md5_throws "router_replying success_reply" xml2js_parse 0]
          performLogin_unchecked [OF h, of md5_coerces "router_replying success_reply" xml2js_parse 0]
    by (simp add: h pw md5_throws_def md5_coerces_def null_private_key)
qed

lemma challenge_only_reply_parsed:
  "parseXmlResponse xml2js_parse challenge_only_reply
   = Inr (JObj [(''Challenge'', JStr ''1234567890ABCDEF''), (''Cookie'', JStr [])])"
  by code_simp

lemma unauthenticated_request:
  assumes "privateKey c = JNull"
  shows "makeHNAPRequest other (router_replying reply) now action body c = (Inr reply, c)"
  using assms by (simp add: makeHNAPRequest_def hnap_headers_cases router_replying_def)

text \<open>
  C4. The claim: when \<open>Challenge\<close>, \<open>Cookie\<close> or \<open>PublicKey\<close> is absent or empty in
  the response, \<open>requestLoginChallenge\<close> raises a handshake error and leaves the three
  session fields unchanged. The code assigns the three fields first and tests them
  afterwards: a response with a challenge, an empty cookie and no public key makes it
  throw, and leaves the challenge stored, the cookie empty and the public key
  \<open>undefined\<close> where all three were \<open>null\<close>.
\<close>

theorem requestLoginChallenge_stores_partial_result:
  "requestLoginChallenge md5_throws (router_replying challenge_only_reply) xml2js_parse
       1700000000123 fresh_client
     = (Inl (Error ''Login challenge request failed''),
        fresh_client\<lparr>cookie := JStr [], publicKey := JUndefined,
                      challenge := JStr ''1234567890ABCDEF''\<rparr>)
   \<and> challenge fresh_client = JNull \<and> cookie fresh_client = JNull
   \<and> publicKey fresh_client = JNull"
proof -
  have n: "privateKey fresh_client = JNull"
    by (simp add: fresh_client_def fresh_fields)
  show ?thesis
    by (simp add: requestLoginChallenge_def Let_def unauthenticated_request [OF n]
          challenge_only_reply_parsed)
       (simp add: fresh_client_def new_client_def)
qed

text \<open>
  Through \<open>login\<close> the second step runs only after the first has returned normally, that
  is, with a non-empty challenge, cookie and public key in the session.
\<close>

lemma requestLoginChallenge_success:
  assumes "requestLoginChallenge other post parse now c = (Inr u, c1)"
  shows "truthy (challenge c1) \<and> truthy (cookie c1) \<and> truthy (publicKey c1)"
  using assms
  by (auto simp: requestLoginChallenge_def Let_def split: prod.splits sum.splits if_splits)

lemma login_stops_at_failed_challenge:
  assumes "requestLoginChallenge other post parse now1 c = (Inl e, c1)"
  shows "login other post parse now1 now2 c = (Inl e, c1)"
  using assms by (simp add: login_def)

text \<open>
  C4, as the code has it: once the response is parsed to a value other than
  \<open>undefined\<close> or \<open>null\<close>, \<open>requestLoginChallenge\<close> stores that value's
  \<open>Challenge\<close>, \<open>Cookie\<close> and \<open>PublicKey\<close> in the session (\<open>undefined\<close> for an
  absent element, the empty string for an empty one), whether or not it then fails; it
  raises the error \<open>Login challenge request failed\<close> when one of the three is absent or
  empty and returns normally when all three are non-empty.
\<close>

theorem requestLoginChallenge_stores_then_checks:
  assumes "makeHNAPRequest other post now ''Login''
             (createSOAP ''Login''
                [(''Action'', ''request''), (''Username'', username c),
                 (''LoginPassword'', ''''), (''Captcha'', '''')]) c = (Inr response, c1)"
      and "parseXmlResponse parse response = Inr result"
      and "result \<noteq> JUndefined" and "result \<noteq> JNull"
  shows "\<exists>ch ck pk.
           js_get result ''Challenge'' = Inr ch \<and> js_get result ''Cookie'' = Inr ck
           \<and> js_get result ''PublicKey'' = Inr pk
           \<and> requestLoginChallenge other post parse now c =
               (if truthy ch \<and> truthy ck \<and> truthy pk then Inr ()
                else Inl (Error ''Login challenge request failed''),
                c1\<lparr>challenge := ch, cookie := ck, publicKey := pk\<rparr>)"
proof -
  obtain ch ck pk where g: "js_get result ''Challenge'' = Inr ch"
      "js_get result ''Cookie'' = Inr ck" "js_get result ''PublicKey'' = Inr pk"
    using assms(3,4) by (cases result) auto
  show ?thesis
    using assms(1,2) g by (simp add: requestLoginChallenge_def Let_def)
qed

theorem requestLoginChallenge_stores_then_checks_witness:
  "makeHNAPRequest md5_throws (router_replying full_challenge_reply) 1700000000123 ''Login''
     (createSOAP ''Login''
        [(''Action'', ''request''), (''Username'', username fresh_client),
         (''LoginPassword'', ''''), (''Captcha'', '''')]) fresh_client
     = (Inr full_challenge_reply, fresh_client)
   \<and> parseXmlResponse xml2js_parse full_challenge_reply
     = Inr (JObj [(''Challenge'', JStr ''1234567890ABCDEF''), (''Cookie'', JStr ''c0ffee''),
                  (''PublicKey'', JStr ''FEDCBA0987654321'')])
   \<and> requestLoginChallenge md5_throws (router_replying full_challenge_reply) xml2js_parse
         1700000000123 fresh_client
     = (Inr (), challenged_client)"
proof -
  have n: "privateKey fresh_client = JNull"
    by (simp add: fresh_client_def fresh_fields)
  have p: "parseXmlResponse xml2js_parse full_challenge_reply
     = Inr (JObj [(''Challenge'', JStr ''1234567890ABCDEF''), (''Cookie'', JStr ''c0ffee''),
                  (''PublicKey'', JStr ''FEDCBA0987654321'')])"
    by code_simp
  have r: "JObj [(''Challenge'', JStr ''1234567890ABCDEF''), (''Cookie'', JStr ''c0ffee''),
                  (''PublicKey'', JStr ''FEDCBA0987654321'')] \<noteq> JUndefined"
     "JObj [(''Challenge'', JStr ''1234567890ABCDEF''), (''Cookie'', JStr ''c0ffee''),
                  (''PublicKey'', JStr ''FEDCBA0987654321'')] \<noteq> JNull"
    by simp_all
  from requestLoginChallenge_stores_then_checks [OF unauthenticated_request [OF n] p r]
  show ?thesis
    using unauthenticated_request [OF n] p
    by (auto simp: challenged_client_def fresh_client_def new_client_def)
qed

subsection \<open>Parsing responses\<close>















subsection \<open>The envelope\<close>

lemma name_char_facts:
  assumes "name_char ch"
  shows "name_body ch" "\<not> non_ascii ch" "ch \<noteq> CHR ''>''" "ch \<noteq> CHR '':''"
  using assms unfolding name_char_def name_body_def name_start_def non_ascii_def by auto

lemma letter_facts:
  assumes "letter ch"
  shows "name_start ch" "\<not> is_space ch" "ch \<noteq> CHR ''!''"
  using assms unfolding letter_def name_start_def is_space_def by auto

lemma sax_open_name:
  "list_all name_char s \<Longrightarrow> sax (OpenTag n) stack (s @ rest) = sax (OpenTag (n @ s)) stack rest"
  by (induction s arbitrary: n) (simp_all add: name_char_facts)

lemma sax_close_name:
  "n \<noteq> [] \<Longrightarrow> list_all name_char s \<Longrightarrow>
   sax (CloseTag n) stack (s @ rest) = sax (CloseTag (n @ s)) stack rest"
  by (induction s arbitrary: n) (simp_all add: name_char_facts)

lemma action_name_split:
  assumes "action_name a"
  obtains ch cs where "a = ch # cs" "letter ch" "list_all name_char cs"
  using assms by (cases a) (auto simp: action_name_def)

lemma sax_open_action:
  assumes "action_name a"
  shows "sax OpenWaka stack (a @ rest) = sax (OpenTag a) stack rest"
proof -
  obtain ch cs where a: "a = ch # cs" "letter ch" "list_all name_char cs"
    using assms by (rule action_name_split)
  show ?thesis
    using sax_open_name [OF a(3), of "[ch]" stack rest] letter_facts [OF a(2)]
    by (simp add: a(1))
qed

lemma sax_close_action:
  assumes "action_name a"
  shows "sax (CloseTag []) stack (a @ rest) = sax (CloseTag a) stack rest"
proof -
  obtain ch cs where a: "a = ch # cs" "letter ch" "list_all name_char cs"
    using assms by (rule action_name_split)
  show ?thesis
    using sax_close_name [OF _ a(3), of "[ch]" stack rest] letter_facts [OF a(2)]
    by (simp add: a(1))
qed

lemma stripPrefix_name: "action_name a \<Longrightarrow> stripPrefix a = a"
proof -
  assume "action_name a"
  then have "list_all name_char a"
    by (simp add: action_name_def)
  then have "\<forall>x \<in> set (rev a). x \<noteq> CHR '':''"
    by (auto simp: list_all_iff name_char_facts)
  then have tw: "takeWhile (\<lambda>x. x \<noteq> CHR '':'') (rev a) = rev a"
    by (simp add: takeWhile_eq_all_conv)
  show ?thesis
    unfolding stripPrefix_def after_last_colon_def tw by simp
qed

lemma onopentag_action:
  assumes "action_name a"
  shows "onopentag a stack = Inr ((a, [], []) # stack)"
  using assms by (simp add: onopentag_def stripPrefix_name) (simp add: action_name_def)

lemma action_name_ascii: "action_name a \<Longrightarrow> \<not> list_ex non_ascii a"
  by (auto simp: action_name_def list_all_iff list_ex_iff name_char_facts)

lemma action_name_nonempty: "action_name a \<Longrightarrow> a \<noteq> []"
  by (simp add: action_name_def)

lemma envelope_names:
  "onopentag ''soap:Envelope'' stack = Inr ((''soap:Envelope'', [], []) # stack)"
  "onopentag ''soap:Body'' stack = Inr ((''soap:Body'', [], []) # stack)"
  "onopentag ''A'' stack = Inr ((''A'', [], []) # stack)"
  "onopentag ''B'' stack = Inr ((''B'', [], []) # stack)"
  "stripPrefix ''soap:Envelope'' = ''Envelope''" "stripPrefix ''soap:Body'' = ''Body''"
  "stripPrefix ''A'' = ''A''" "stripPrefix ''B'' = ''B''"
  by (simp_all add: onopentag_def stripPrefix_def after_last_colon_def reserved_keys_def)

lemma createSOAP_tree:
  assumes "action_name a"
  shows "xml2js_parse (createSOAP a [(''A'', ''1''), (''B'', ''2'')])
         = Inr (JObj [(''Envelope'',
                  JObj [(''Body'', JObj [(a, JObj [(''A'', JStr ''1''), (''B'', JStr ''2'')])])])])"
proof -
  have blank: "\<not> list_all js_blank (createSOAP a [(''A'', ''1''), (''B'', ''2'')])"
    by (simp add: createSOAP_def soap_open_def js_blank_def)
  have ascii: "\<not> list_ex non_ascii (createSOAP a [(''A'', ''1''), (''B'', ''2'')])"
    using action_name_ascii [OF assms]
    by (simp add: createSOAP_def soap_open_def soap_close_def soap_param_def non_ascii_def)
  have run: "sax Begin [] (createSOAP a [(''A'', ''1''), (''B'', ''2'')])
         = Inr (JObj [(''Envelope'',
                  JObj [(''Body'', JObj [(a, JObj [(''A'', JStr ''1''), (''B'', JStr ''2'')])])])])"
    unfolding createSOAP_def soap_open_def soap_close_def soap_param_def
    by (simp add: sax_open_action [OF assms] sax_close_action [OF assms]
          onopentag_action [OF assms] stripPrefix_name [OF assms] action_name_nonempty [OF assms]
          envelope_names onclosetag_def ontext_def close_value_def
          is_space_def js_blank_def name_start_def name_body_def)
  show ?thesis
    using blank ascii run by (simp add: xml2js_parse_def)
qed

lemma first_entry_single: "first_entry (JObj [(k, v)]) = Inr v"
  by (cases "index_value k") (simp_all add: first_entry_def own_keys_def)

lemma createSOAP_layout:
  "createSOAP action params = soap_open action @ concat (map soap_param params) @ soap_close action"
proof -
  have "foldl (\<lambda>xmlBody kv. xmlBody @ soap_param kv) start params
        = start @ concat (map soap_param params)" for start
    by (induction params arbitrary: start) simp_all
  then show ?thesis
    by (simp add: createSOAP_def)
qed

text \<open>
  C7. For every action name that is a letter followed by letters and digits (at most
  64 characters, and not the name of a member of \<open>Object.prototype\<close>), parsing the
  envelope that \<open>createSOAP\<close> builds for the parameters A = 1, B = 2 returns the mapping
  of A to 1 and B to 2, in that order: the single child under \<open>Body\<close> is taken as the
  response root. And for every action and parameter list the envelope is the fixed
  opening, then one element per parameter in the order given, each holding its value
  verbatim between its opening and closing tag, then the fixed closing.
\<close>

theorem createSOAP_roundtrip:
  "(action_name a \<longrightarrow>
      parseXmlResponse xml2js_parse (createSOAP a [(''A'', ''1''), (''B'', ''2'')])
      = Inr (JObj [(''A'', JStr ''1''), (''B'', JStr ''2'')]))
   \<and> createSOAP action params
       = soap_open action
         @ concat (map (\<lambda>(key, value). ''<'' @ key @ ''>'' @ value @ ''</'' @ key @ ''>'') params)
         @ soap_close action"
proof -
  have "parseXmlResponse xml2js_parse (createSOAP a [(''A'', ''1''), (''B'', ''2'')])
      = Inr (JObj [(''A'', JStr ''1''), (''B'', JStr ''2'')])" if "action_name a"
    by (simp add: parseXmlResponse_def createSOAP_tree [OF that] body_of_def first_entry_single)
  moreover have "soap_param = (\<lambda>(key, value). ''<'' @ key @ ''>'' @ value @ ''</'' @ key @ ''>'')"
    by (auto simp: soap_param_def fun_eq_iff)
  ultimately show ?thesis
    using createSOAP_layout [of action params] by simp
qed

theorem createSOAP_roundtrip_witness:
  "action_name ''Login''
   \<and> parseXmlResponse xml2js_parse (createSOAP ''Login'' [(''A'', ''1''), (''B'', ''2'')])
       = Inr (JObj [(''A'', JStr ''1''), (''B'', JStr ''2'')])
   \<and> createSOAP ''Login'' [(''A'', ''1''), (''B'', ''2'')]
       = soap_open ''Login'' @ ''<A>1</A><B>2</B>'' @ soap_close ''Login''"
proof -
  note rt = createSOAP_roundtrip [of "''Login''" "''Login''" "[(''A'', ''1''), (''B'', ''2'')]"]
  have n: "action_name ''Login''"
    by (simp add: action_name_def letter_def name_char_def reserved_keys_def)
  have r: "parseXmlResponse xml2js_parse (createSOAP ''Login'' [(''A'', ''1''), (''B'', ''2'')])
       = Inr (JObj [(''A'', JStr ''1''), (''B'', JStr ''2'')])"
    using rt n by blast
  have c: "concat (map (\<lambda>(key, value). ''<'' @ key @ ''>'' @ value @ ''</'' @ key @ ''>'')
             [(''A'', ''1''), (''B'', ''2'')]) = ''<A>1</A><B>2</B>''"
    by simp
  have l: "createSOAP ''Login'' [(''A'', ''1''), (''B'', ''2'')]
       = soap_open ''Login'' @ ''<A>1</A><B>2</B>'' @ soap_close ''Login''"
    using rt unfolding c by blast
  show ?thesis
    using n r l by blast
qed

end
